theory Spec2Isabelle
  imports Complex_Main "HOL-Library.Word"
begin

section \<open>Python values shared by the client modules\<close>

text \<open>
  Exceptions of the Python sources, as values.  \<open>ConnectionError\<close> stands for the class
  and its subclasses (the ones \<^verbatim>\<open>except ConnectionError\<close> catches); \<open>OSError\<close> for every
  other \<^verbatim>\<open>OSError\<close> of the transport (a socket timeout, for instance); \<open>ProtocolError\<close> is
  the mock server's own exception.
\<close>

datatype py_error =
  StructError | ValueError | AssertionError | IndexError | ConnectionError | OSError
  | ProtocolError

type_synonym byte = "8 word"

subsection \<open>Slices\<close>

text \<open>
  \<^verbatim>\<open>xs[a:b]\<close> on a sequence of length \<open>n\<close>: a negative index counts from the end, and
  both ends are clamped to \<open>0..n\<close>.
\<close>

definition py_index :: "nat \<Rightarrow> int \<Rightarrow> nat" where
  "py_index n i = (if i < 0 then nat (max 0 (i + int n)) else min (nat i) n)"

definition py_slice :: "'a list \<Rightarrow> int \<Rightarrow> int \<Rightarrow> 'a list" where
  "py_slice xs a b =
     (let lo = py_index (length xs) a; hi = py_index (length xs) b
      in take (hi - lo) (drop lo xs))"

text \<open>\<^verbatim>\<open>xs[a:]\<close>\<close>

definition py_slice_from :: "'a list \<Rightarrow> int \<Rightarrow> 'a list" where
  "py_slice_from xs a = drop (py_index (length xs) a) xs"

subsection \<open>The struct module, little-endian\<close>

text \<open>
  \<open>le_encode n x\<close> is the \<open>n\<close> low bytes of \<open>x\<close> in two's complement, least significant
  first; \<open>le_unsigned\<close> and \<open>le_signed\<close> read such bytes back.
\<close>

fun le_encode :: "nat \<Rightarrow> int \<Rightarrow> byte list" where
  "le_encode 0 x = []"
| "le_encode (Suc n) x = word_of_int x # le_encode n (x div 256)"

fun le_unsigned :: "byte list \<Rightarrow> int" where
  "le_unsigned [] = 0"
| "le_unsigned (b # bs) = uint b + 256 * le_unsigned bs"

definition le_signed :: "byte list \<Rightarrow> int" where
  "le_signed bs =
     (let u = le_unsigned bs
      in if 2 ^ (8 * length bs - 1) \<le> u then u - 2 ^ (8 * length bs) else u)"

text \<open>The ranges of \<^verbatim>\<open>"<i"\<close>, \<^verbatim>\<open>"<q"\<close> and \<^verbatim>\<open>"<Q"\<close>; \<^verbatim>\<open>struct.pack\<close> raises \<^verbatim>\<open>struct.error\<close> outside them.\<close>

definition in_i32 :: "int \<Rightarrow> bool" where
  "in_i32 x = (- (2 ^ 31) \<le> x \<and> x < 2 ^ 31)"

definition in_i64 :: "int \<Rightarrow> bool" where
  "in_i64 x = (- (2 ^ 63) \<le> x \<and> x < 2 ^ 63)"

definition in_u64 :: "int \<Rightarrow> bool" where
  "in_u64 x = (0 \<le> x \<and> x < 2 ^ 64)"

text \<open>
  \<^verbatim>\<open>struct.Struct(fmt).unpack(data)\<close> for the formats the client uses: the data must have
  exactly the format's size.
\<close>

definition unpack_i32 :: "byte list \<Rightarrow> py_error + int" where
  "unpack_i32 bs = (if length bs = 4 then Inr (le_signed bs) else Inl StructError)"

section \<open>record.py\<close>

record Key =
  cid :: int
  mid :: int
  moid :: int
  cap :: int
  acq :: int

definition mk_key :: "int \<Rightarrow> int \<Rightarrow> int \<Rightarrow> int \<Rightarrow> int \<Rightarrow> Key" where
  "mk_key c m mo cp a = \<lparr>cid = c, mid = m, moid = mo, cap = cp, acq = a\<rparr>"

definition key_min :: Key where
  "key_min = mk_key 0 (- (2 ^ 63)) (- (2 ^ 31)) (- (2 ^ 63)) (- (2 ^ 63))"

definition key_max :: Key where
  "key_max = mk_key (2 ^ 31 - 1) (2 ^ 63 - 1) (2 ^ 31 - 1) (2 ^ 63 - 1) (2 ^ 63 - 1)"

definition valid :: "Key \<Rightarrow> bool" where
  "valid k = (cid k \<ge> 0)"

text \<open>
  \<^verbatim>\<open>struct.pack\<close> of signed little-endian fields, each given with its width in bytes:
  \<^verbatim>\<open>struct.error\<close> when a field is outside its width.  \<^verbatim>\<open>Key.to_bytes(with_cid, with_acq)\<close>
  is one such call on the chosen fields.
\<close>

definition pack_fields :: "(nat \<times> int) list \<Rightarrow> py_error + byte list" where
  "pack_fields fs =
     (if list_all (\<lambda>(n, x). - (2 ^ (8 * n - 1)) \<le> x \<and> x < 2 ^ (8 * n - 1)) fs
      then Inr (concat (map (\<lambda>(n, x). le_encode n x) fs))
      else Inl StructError)"

definition key_to_bytes :: "Key \<Rightarrow> bool \<Rightarrow> bool \<Rightarrow> py_error + byte list" where
  "key_to_bytes k with_cid with_acq =
     (case (with_cid, with_acq) of
        (True, True) \<Rightarrow> pack_fields [(4, cid k), (8, mid k), (4, moid k), (8, cap k), (8, acq k)]
      | (True, False) \<Rightarrow> pack_fields [(4, cid k), (8, mid k), (4, moid k), (8, cap k)]
      | (False, True) \<Rightarrow> pack_fields [(8, mid k), (4, moid k), (8, cap k), (8, acq k)]
      | (False, False) \<Rightarrow> pack_fields [(8, mid k), (4, moid k), (8, cap k)])"

text \<open>
  \<^verbatim>\<open>Key.from_bytes\<close>: \<^verbatim>\<open>struct.error\<close> (a length other than 32) and an invalid key both
  give \<^verbatim>\<open>None\<close>.
\<close>

definition key_from_bytes :: "byte list \<Rightarrow> Key option" where
  "key_from_bytes data =
     (if length data \<noteq> 32 then None
      else let key = mk_key (le_signed (take 4 data))
                            (le_signed (take 8 (drop 4 data)))
                            (le_signed (take 4 (drop 12 data)))
                            (le_signed (take 8 (drop 16 data)))
                            (le_signed (take 8 (drop 24 data)))
           in if valid key then Some key else None)"

record 'a Record =
  key :: Key
  "value" :: 'a

section \<open>payload\_type.py\<close>

text \<open>
  The \<^verbatim>\<open>PayloadType\<close> interface: \<^verbatim>\<open>to_bytes\<close> (which may raise, as
  \<^verbatim>\<open>StructPayloadType.to_bytes\<close> does on a value outside its format) and \<^verbatim>\<open>from_bytes\<close>
  (\<^verbatim>\<open>None\<close> on failure).
\<close>

record 'a PayloadType =
  to_bytes :: "'a \<Rightarrow> py_error + byte list"
  from_bytes :: "byte list \<Rightarrow> 'a option"

definition BytesPayloadType :: "(byte list) PayloadType" where
  "BytesPayloadType = \<lparr>to_bytes = (\<lambda>v. Inr v), from_bytes = (\<lambda>buffer. Some buffer)\<rparr>"

definition UnitPayloadType :: "unit PayloadType" where
  "UnitPayloadType = \<lparr>to_bytes = (\<lambda>_. Inr []), from_bytes = (\<lambda>_. Some ())\<rparr>"

text \<open>\<^verbatim>\<open>StructPayloadType("<i")\<close>, the payload type of the unit tests.\<close>

definition StructPayloadType_i :: "int PayloadType" where
  "StructPayloadType_i =
     \<lparr>to_bytes = (\<lambda>v. pack_fields [(4, v)]),
      from_bytes = (\<lambda>buffer. case unpack_i32 buffer of Inl _ \<Rightarrow> None | Inr v \<Rightarrow> Some v)\<rparr>"

section \<open>\_channel\_common.py\<close>

datatype CommandType = NULL | GET | PUTSAFE | PUTASAFE | GETACQ

fun command_value :: "CommandType \<Rightarrow> int" where
  "command_value NULL = 0"
| "command_value GET = 1"
| "command_value PUTSAFE = 5"
| "command_value PUTASAFE = 6"
| "command_value GETACQ = 7"

definition ACQ_SIZE :: int where "ACQ_SIZE = 8"
definition FULL_KEY_SIZE :: nat where "FULL_KEY_SIZE = 32"
definition HEADER_AUX_SIZE :: int where "HEADER_AUX_SIZE = 0"
definition RESPONSE_HEADER_SIZE :: int where "RESPONSE_HEADER_SIZE = 12"

subsection \<open>RequestHeader\<close>

text \<open>
  The dataclass fields \<^verbatim>\<open>status\<close> and \<^verbatim>\<open>size\<close>, prefixed: \<open>size\<close> is HOL's own constant
  and \<open>status\<close> is the field of the responses below.
\<close>

record RequestHeader =
  h_status :: int
  h_size :: int

text \<open>\<^verbatim>\<open>struct.Struct("<iQ")\<close>: a signed 32-bit status, an unsigned 64-bit size.\<close>

definition header_to_bytes :: "RequestHeader \<Rightarrow> py_error + byte list" where
  "header_to_bytes h =
     (if in_i32 (h_status h) \<and> in_u64 (h_size h)
      then Inr (le_encode 4 (h_status h) @ le_encode 8 (h_size h))
      else Inl StructError)"

definition header_from_bytes :: "byte list \<Rightarrow> py_error + RequestHeader" where
  "header_from_bytes data =
     (if length data = 12
      then Inr \<lparr>h_status = le_signed (take 4 data), h_size = le_unsigned (drop 4 data)\<rparr>
      else Inl StructError)"

definition header_bytes_count :: int where
  "header_bytes_count = 12"

definition is_ok :: "RequestHeader \<Rightarrow> bool" where
  "is_ok h = (h_status h = 0)"

datatype GetRequestState = INITIAL_HEADER | RECORDS_PARSING | FINAL_HEADER

datatype RecordsParsingStatus = FINISHED | UNPARSEABLE | NEEDS_MORE_BYTES | RECORD_TOO_BIG

subsection \<open>ReceiveBuffer\<close>

text \<open>
  \<open>memory\<close> is the bytearray and its memoryview (one storage); the cursors are Python
  integers.
\<close>

record ReceiveBuffer =
  memory :: "byte list"
  current :: int
  available :: int

definition new_buffer :: "int \<Rightarrow> ReceiveBuffer" where
  "new_buffer initial_capacity =
     \<lparr>memory = replicate (nat (max initial_capacity 32)) 0, current = 0, available = 0\<rparr>"

definition buf_len :: "ReceiveBuffer \<Rightarrow> int" where
  "buf_len b = available b - current b"

definition free_len :: "ReceiveBuffer \<Rightarrow> int" where
  "free_len b = int (length (memory b)) - available b"

text \<open>\<^verbatim>\<open>free_space\<close>: the view \<^verbatim>\<open>memory[available:]\<close>, behind an assertion.\<close>

definition free_space :: "ReceiveBuffer \<Rightarrow> py_error + byte list" where
  "free_space b =
     (if available b < int (length (memory b))
      then Inr (py_slice_from (memory b) (available b))
      else Inl AssertionError)"

definition peek :: "ReceiveBuffer \<Rightarrow> int \<Rightarrow> int \<Rightarrow> byte list" where
  "peek b sz offset =
     (let position = current b + offset;
          end = min (position + sz) (available b)
      in py_slice (memory b) position end)"

text \<open>
  The logical content of a buffer, \<open>[current, available)\<close>: what \<^verbatim>\<open>peek\<close> returns when asked
  for \<^verbatim>\<open>len(buffer)\<close> bytes.
\<close>

definition content :: "ReceiveBuffer \<Rightarrow> byte list" where
  "content b = peek b (buf_len b) 0"

definition increase :: "ReceiveBuffer \<Rightarrow> int \<Rightarrow> ReceiveBuffer" where
  "increase b sz = b\<lparr>current := current b + sz\<rparr>"

definition rewind :: "ReceiveBuffer \<Rightarrow> int \<Rightarrow> ReceiveBuffer" where
  "rewind b sz = b\<lparr>current := current b - sz\<rparr>"

definition increase_available :: "ReceiveBuffer \<Rightarrow> int \<Rightarrow> ReceiveBuffer" where
  "increase_available b sz = b\<lparr>available := available b + sz\<rparr>"

definition fits :: "ReceiveBuffer \<Rightarrow> int \<Rightarrow> bool" where
  "fits b sz = (current b + sz \<le> available b)"

definition fits_eventually :: "ReceiveBuffer \<Rightarrow> int \<Rightarrow> bool" where
  "fits_eventually b sz = (current b + sz \<le> int (length (memory b)))"

text \<open>
  \<^verbatim>\<open>truncate\<close> (\<open>truncate\<close> itself is a constant of every record type).  The assignment \<^verbatim>\<open>memory[:distance] = memory[current:available]\<close> on a
  memoryview raises \<^verbatim>\<open>ValueError\<close> when the two slices differ in length; otherwise it
  copies the source bytes as they were before the assignment, also when the two ranges
  overlap.
\<close>

definition buf_truncate :: "ReceiveBuffer \<Rightarrow> py_error + ReceiveBuffer" where
  "buf_truncate b =
     (if current b \<noteq> 0 then
        (let distance = available b - current b;
             src = py_slice (memory b) (current b) (available b);
             hi = py_index (length (memory b)) distance
         in if length src \<noteq> hi then Inl ValueError
            else Inr \<lparr>memory = src @ drop hi (memory b), current = 0, available = distance\<rparr>)
      else Inr b)"

text \<open>\<^verbatim>\<open>grow_buffer\<close>: \<^verbatim>\<open>b"\0" * n\<close> is empty for \<open>n \<le> 0\<close>.\<close>

definition grow_buffer :: "ReceiveBuffer \<Rightarrow> int \<Rightarrow> ReceiveBuffer" where
  "grow_buffer b sz =
     b\<lparr>memory := memory b @ replicate (nat (sz - int (length (memory b)))) 0\<rparr>"

subsection \<open>\_ChannelMixin\<close>

definition parse_record :: "byte list \<Rightarrow> 'a PayloadType \<Rightarrow> 'a Record option" where
  "parse_record buffer payload_type =
     (case key_from_bytes (take FULL_KEY_SIZE buffer) of
        None \<Rightarrow> None
      | Some k \<Rightarrow>
          (case from_bytes payload_type (drop FULL_KEY_SIZE buffer) of
             None \<Rightarrow> None
           | Some v \<Rightarrow> Some \<lparr>key = k, value = v\<rparr>))"

text \<open>The formats \<^verbatim>\<open>_handle_response\<close> is called with: \<^verbatim>\<open>""\<close>, \<^verbatim>\<open>"<q"\<close> and \<^verbatim>\<open>"<qq"\<close>.\<close>

datatype format = Fmt_empty | Fmt_q | Fmt_qq

fun format_size :: "format \<Rightarrow> int" where
  "format_size Fmt_empty = 0"
| "format_size Fmt_q = 8"
| "format_size Fmt_qq = 16"

definition struct_unpack :: "format \<Rightarrow> byte list \<Rightarrow> py_error + int list" where
  "struct_unpack fmt data =
     (if int (length data) \<noteq> format_size fmt then Inl StructError
      else Inr (case fmt of
                  Fmt_empty \<Rightarrow> []
                | Fmt_q \<Rightarrow> [le_signed data]
                | Fmt_qq \<Rightarrow> [le_signed (take 8 data), le_signed (drop 8 data)]))"

text \<open>
  \<^verbatim>\<open>_handle_response\<close>: \<^verbatim>\<open>None\<close> while the response is incomplete, else the header, the
  unpacked data and the buffer advanced past the response.
\<close>

definition handle_response ::
  "ReceiveBuffer \<Rightarrow> format \<Rightarrow> py_error + (RequestHeader \<times> int list \<times> ReceiveBuffer) option" where
  "handle_response buffer fmt =
     (let header_size = header_bytes_count in
      if fits buffer header_size then
        (case header_from_bytes (peek buffer header_size 0) of
           Inl e \<Rightarrow> Inl e
         | Inr response \<Rightarrow>
             if fits buffer (header_size + h_size response) then
               (case (if is_ok response
                      then struct_unpack fmt (peek buffer (format_size fmt) header_size)
                      else Inr []) of
                  Inl e \<Rightarrow> Inl e
                | Inr data \<Rightarrow>
                    Inr (Some (response, data, increase buffer (header_size + h_size response))))
             else Inr None)
      else Inr None)"

text \<open>
  \<^verbatim>\<open>_parse_records\<close>.  The loop runs again only after a record was parsed; then the size
  prefix was read from four bytes and the record from at least 32, so the position of
  the cursor in \<open>memory\<close> has moved forward, which is the measure below.
\<close>

lemma py_index_le: "py_index n i \<le> n"
  by (auto simp: py_index_def)

lemma length_py_slice:
  "length (py_slice xs a b) = py_index (length xs) b - py_index (length xs) a"
  using py_index_le[of "length xs" b] by (simp add: py_slice_def Let_def)

lemma parse_record_Some_length:
  "parse_record bs pt = Some r \<Longrightarrow> 32 \<le> length bs"
  by (auto simp: parse_record_def key_from_bytes_def FULL_KEY_SIZE_def
      split: option.splits if_splits)

lemma parse_records_decreases:
  assumes f4: "fits b 4" and u: "unpack_i32 (peek b 4 0) = Inr rs"
    and f: "fits b (4 + rs)" and p: "parse_record (peek b rs 4) pt = Some r"
  shows "length (memory b) - py_index (length (memory b)) (current (increase b (4 + rs)))
       < length (memory b) - py_index (length (memory b)) (current b)"
proof -
  let ?n = "length (memory b)"
  have e1: "min (current b + 4) (available b) = current b + 4"
    using f4 by (simp add: fits_def)
  have e2: "min (current b + 4 + rs) (available b) = current b + 4 + rs"
    using f by (simp add: fits_def)
  have "length (peek b 4 0) = 4"
    using u by (simp add: unpack_i32_def split: if_splits)
  then have a: "py_index ?n (current b + 4) - py_index ?n (current b) = 4"
    by (simp add: peek_def Let_def e1 length_py_slice)
  have "32 \<le> length (peek b rs 4)"
    using p by (rule parse_record_Some_length)
  then have c: "32 \<le> py_index ?n (current b + 4 + rs) - py_index ?n (current b + 4)"
    by (simp add: peek_def Let_def e2 length_py_slice)
  have "py_index ?n (current b + 4 + rs) \<le> ?n" by (rule py_index_le)
  with a c show ?thesis by (simp add: increase_def add.assoc)
qed

function parse_records ::
  "ReceiveBuffer \<Rightarrow> 'a Record list \<Rightarrow> 'a PayloadType \<Rightarrow> int option
     \<Rightarrow> py_error + (RecordsParsingStatus \<times> ReceiveBuffer \<times> 'a Record list)" where
  "parse_records buffer records payload_type max_size =
     (if fits buffer 4 then
        (case unpack_i32 (peek buffer 4 0) of
           Inl e \<Rightarrow> Inl e
         | Inr record_size \<Rightarrow>
             if record_size = 0 then
               (case buf_truncate (increase buffer 4) of
                  Inl e \<Rightarrow> Inl e
                | Inr b \<Rightarrow> Inr (FINISHED, b, records))
             else if fits buffer (4 + record_size) then
               (case parse_record (peek buffer record_size 4) payload_type of
                  None \<Rightarrow> Inr (UNPARSEABLE, increase buffer (4 + record_size), records)
                | Some record \<Rightarrow>
                    parse_records (increase buffer (4 + record_size)) (records @ [record])
                      payload_type max_size)
             else if (case max_size of None \<Rightarrow> False | Some m \<Rightarrow> 4 + record_size > m) then
               Inr (RECORD_TOO_BIG, buffer, records)
             else
               (case buf_truncate buffer of
                  Inl e \<Rightarrow> Inl e
                | Inr b \<Rightarrow>
                    Inr (NEEDS_MORE_BYTES,
                         (if \<not> fits_eventually b (4 + record_size)
                          then grow_buffer b (4 + record_size) else b),
                         records)))
      else if \<not> fits_eventually buffer 4 then
        (case buf_truncate buffer of
           Inl e \<Rightarrow> Inl e
         | Inr b \<Rightarrow> Inr (NEEDS_MORE_BYTES, b, records))
      else Inr (NEEDS_MORE_BYTES, buffer, records))"
  by pat_completeness auto
termination
proof (relation "measure (\<lambda>(b, rs, pt, ms).
    length (memory b) - py_index (length (memory b)) (current b))")
  show "wf (measure (\<lambda>(b :: ReceiveBuffer, rs :: 'a Record list, pt :: 'a PayloadType,
      ms :: int option). length (memory b) - py_index (length (memory b)) (current b)))"
    by simp
next
  fix buffer :: ReceiveBuffer and records :: "'a Record list"
    and payload_type :: "'a PayloadType" and max_size :: "int option" and record_size x2
  assume "fits buffer 4" "unpack_i32 (peek buffer 4 0) = Inr record_size"
    "record_size \<noteq> 0" "fits buffer (4 + record_size)"
    "parse_record (peek buffer record_size 4) payload_type = Some x2"
  then show "((increase buffer (4 + record_size), records @ [x2], payload_type, max_size),
              buffer, records, payload_type, max_size)
          \<in> measure (\<lambda>(b, rs, pt, ms).
                length (memory b) - py_index (length (memory b)) (current b))"
    using parse_records_decreases[of buffer record_size payload_type x2]
    by (simp add: increase_def)
qed

declare parse_records.simps [simp del]

text \<open>
  \<^verbatim>\<open>_group_records_by_cid\<close>: a \<^verbatim>\<open>defaultdict(list)\<close>, which keeps its keys in the order of
  their first insertion.
\<close>

fun group_insert :: "'a Record \<Rightarrow> (int \<times> 'a Record list) list \<Rightarrow> (int \<times> 'a Record list) list" where
  "group_insert r [] = [(cid (key r), [r])]"
| "group_insert r ((c, rs) # g) =
     (if c = cid (key r) then (c, rs @ [r]) # g else (c, rs) # group_insert r g)"

definition group_records_by_cid :: "'a Record list \<Rightarrow> (int \<times> 'a Record list) list" where
  "group_records_by_cid data = foldl (\<lambda>g r. group_insert r g) [] data"

text \<open>
  \<^verbatim>\<open>_serialize_records_batches_iter\<close>, a generator.  \<open>pack_frame\<close> is its
  \<^verbatim>\<open>b"".join((struct.pack("<ii", cid, len(raw_records)), raw_records))\<close>; \<open>flushes\<close> is the
  test \<^verbatim>\<open>0 < len(raw_records) > (max_batch_size - size)\<close>.  \<open>serialize_group\<close> is the
  inner loop over the records of one cid: the frames it yields, and how it ends (the
  group's records are exhausted, the generator returns at an invalid key, or an
  exception).  \<open>serialize_groups\<close> is the outer loop: the frames yielded, and the
  exception that ended the generator, if any.
\<close>

definition pack_frame :: "int \<Rightarrow> byte list \<Rightarrow> py_error + byte list" where
  "pack_frame c raw_records =
     (case pack_fields [(4, c), (4, int (length raw_records))] of
        Inl e \<Rightarrow> Inl e
      | Inr head \<Rightarrow> Inr (head @ raw_records))"

definition flushes :: "byte list \<Rightarrow> int \<Rightarrow> int \<Rightarrow> bool" where
  "flushes raw_records max_batch_size sz =
     (0 < length raw_records \<and> int (length raw_records) > max_batch_size - sz)"

datatype group_end = Group_done "byte list" | Generator_returns | Generator_raises py_error

fun serialize_group ::
  "int \<Rightarrow> 'a Record list \<Rightarrow> bool \<Rightarrow> 'a PayloadType \<Rightarrow> int \<Rightarrow> bool \<Rightarrow> byte list
     \<Rightarrow> byte list list \<times> group_end" where
  "serialize_group c [] with_acq payload_type max_batch_size skip_invalid raw_records =
     ([], Group_done raw_records)"
| "serialize_group c (record # records) with_acq payload_type max_batch_size skip_invalid
     raw_records =
     (if \<not> valid (key record) then
        (if skip_invalid then
           serialize_group c records with_acq payload_type max_batch_size skip_invalid raw_records
         else
           (case pack_frame c raw_records of
              Inl e \<Rightarrow> ([], Generator_raises e)
            | Inr frame \<Rightarrow> ([frame], Generator_returns)))
      else
        (case key_to_bytes (key record) False with_acq of
           Inl e \<Rightarrow> ([], Generator_raises e)
         | Inr raw_key \<Rightarrow>
        (case to_bytes payload_type (value record) of
           Inl e \<Rightarrow> ([], Generator_raises e)
         | Inr raw_payload \<Rightarrow>
        (let sz = int (length raw_key) + int (length raw_payload) in
         if flushes raw_records max_batch_size sz then
           (case pack_frame c raw_records of
              Inl e \<Rightarrow> ([], Generator_raises e)
            | Inr frame \<Rightarrow>
           (case pack_fields [(4, sz)] of
              Inl e \<Rightarrow> ([frame], Generator_raises e)
            | Inr raw_size \<Rightarrow>
           (case serialize_group c records with_acq payload_type max_batch_size skip_invalid
                   (raw_size @ raw_key @ raw_payload) of
              (frames, ending) \<Rightarrow> (frame # frames, ending))))
         else
           (case pack_fields [(4, sz)] of
              Inl e \<Rightarrow> ([], Generator_raises e)
            | Inr raw_size \<Rightarrow>
                serialize_group c records with_acq payload_type max_batch_size skip_invalid
                  (raw_records @ raw_size @ raw_key @ raw_payload))))))"

fun serialize_groups ::
  "(int \<times> 'a Record list) list \<Rightarrow> bool \<Rightarrow> 'a PayloadType \<Rightarrow> int \<Rightarrow> bool
     \<Rightarrow> byte list list \<times> py_error option" where
  "serialize_groups [] with_acq payload_type max_batch_size skip_invalid = ([], None)"
| "serialize_groups ((c, records) # groups) with_acq payload_type max_batch_size skip_invalid =
     (case serialize_group c records with_acq payload_type max_batch_size skip_invalid [] of
        (frames, Generator_raises e) \<Rightarrow> (frames, Some e)
      | (frames, Generator_returns) \<Rightarrow> (frames, None)
      | (frames, Group_done raw_records) \<Rightarrow>
          (case pack_frame c raw_records of
             Inl e \<Rightarrow> (frames, Some e)
           | Inr frame \<Rightarrow>
               (case serialize_groups groups with_acq payload_type max_batch_size skip_invalid of
                  (later, ending) \<Rightarrow> (frames @ frame # later, ending))))"

definition serialize_records_batches_iter ::
  "'a Record list \<Rightarrow> bool \<Rightarrow> 'a PayloadType \<Rightarrow> int \<Rightarrow> bool \<Rightarrow> byte list list \<times> py_error option" where
  "serialize_records_batches_iter data with_acq payload_type max_batch_size skip_invalid =
     serialize_groups (group_records_by_cid data) with_acq payload_type max_batch_size
       skip_invalid"

text \<open>\<^verbatim>\<open>_prepare_keyrange_request\<close>\<close>

definition prepare_keyrange_request ::
  "CommandType \<Rightarrow> Key \<Rightarrow> Key \<Rightarrow> int \<Rightarrow> py_error + byte list" where
  "prepare_keyrange_request cmd kmin kmax aux_size =
     (case header_to_bytes \<lparr>h_status = command_value cmd, h_size = aux_size\<rparr> of
        Inl e \<Rightarrow> Inl e
      | Inr h \<Rightarrow>
     (case key_to_bytes kmin True True of
        Inl e \<Rightarrow> Inl e
      | Inr a \<Rightarrow>
     (case key_to_bytes kmax True True of
        Inl e \<Rightarrow> Inl e
      | Inr b \<Rightarrow> Inr (h @ a @ b))))"

section \<open>timestamp.py\<close>

text \<open>
  An aware \<^verbatim>\<open>datetime.datetime\<close>, by what \<^verbatim>\<open>Tstoragedatetime\<close> reads of it: the whole
  seconds between the Unix epoch and the instant, rounded down (negative before 1970),
  and the \<^verbatim>\<open>microsecond\<close> field, in \<open>0..999999\<close>.  Two such values are equal exactly
  when the datetimes compare equal.

  \<^verbatim>\<open>datetime.timestamp()\<close> is \<^verbatim>\<open>(self - _EPOCH).total_seconds()\<close>, the quotient of the
  microsecond count by \<open>10\<^sup>6\<close>; it is a rational here, the float's rounding left out.
  \<^verbatim>\<open>int()\<close> of it truncates towards zero.

  \<open>to_unix_ns\<close> and \<open>from_unix_ns\<close> below are the methods of \<^verbatim>\<open>Tstoragedatetime\<close>, not the
  module's functions of the same names, which shift a timestamp between the two epochs.
\<close>

record datetime =
  epoch_seconds :: int
  microsecond :: int

definition timestamp :: "datetime \<Rightarrow> rat" where
  "timestamp d = of_int (epoch_seconds d * 10 ^ 6 + microsecond d) / 10 ^ 6"

definition py_int :: "rat \<Rightarrow> int" where
  "py_int q = (if q < 0 then \<lceil>q\<rceil> else \<lfloor>q\<rfloor>)"

text \<open>\<^verbatim>\<open>datetime.fromtimestamp(seconds, tzinfo)\<close> on whole seconds, and \<^verbatim>\<open>replace\<close>.\<close>

definition fromtimestamp :: "int \<Rightarrow> datetime" where
  "fromtimestamp seconds = \<lparr>epoch_seconds = seconds, microsecond = 0\<rparr>"

definition replace_microsecond :: "datetime \<Rightarrow> int \<Rightarrow> datetime" where
  "replace_microsecond d micros = d\<lparr>microsecond := micros\<rparr>"

record Tstoragedatetime =
  datetime :: datetime
  nanoseconds :: int

definition to_unix_ns :: "Tstoragedatetime \<Rightarrow> int" where
  "to_unix_ns x =
     (let v = py_int (timestamp (datetime x)) * 10 ^ 6 + microsecond (datetime x)
      in v * 1000 + nanoseconds x)"

definition from_unix_ns :: "int \<Rightarrow> Tstoragedatetime" where
  "from_unix_ns t =
     (let nanos = t mod 1000;
          micros = (t div 1000) mod 10 ^ 6;
          seconds = t div 10 ^ 9
      in \<lparr>datetime = replace_microsecond (fromtimestamp seconds) micros, nanoseconds = nanos\<rparr>)"

section \<open>pystorage.py, the mock server\<close>

definition ACQFOLLOWTHRESHOLD :: int where
  "ACQFOLLOWTHRESHOLD = 10000000"

text \<open>The server's \<^verbatim>\<open>Key.__lt__\<close>: every field strictly smaller.\<close>

definition server_key_lt :: "Key \<Rightarrow> Key \<Rightarrow> bool" where
  "server_key_lt a b =
     (cid a < cid b \<and> mid a < mid b \<and> moid a < moid b \<and> cap a < cap b \<and> acq a < acq b)"

definition validateKey :: "Key \<Rightarrow> py_error + unit" where
  "validateKey k = (if cid k < 0 then Inl ProtocolError else Inr ())"

definition validateKeyRange :: "int \<Rightarrow> Key \<Rightarrow> Key \<Rightarrow> py_error + unit" where
  "validateKeyRange lastAcq keyMin keyMax =
     (case validateKey keyMin of
        Inl e \<Rightarrow> Inl e
      | Inr _ \<Rightarrow>
     (case validateKey keyMax of
        Inl e \<Rightarrow> Inl e
      | Inr _ \<Rightarrow>
          if acq keyMin > lastAcq then Inl ProtocolError
          else if \<not> server_key_lt keyMin keyMax then Inl ProtocolError
          else Inr ()))"

text \<open>
  \<^verbatim>\<open>ServerMock.getAcq\<close>: the state is \<^verbatim>\<open>_lastAcq\<close>, \<open>now\<close> is what \<^verbatim>\<open>self.now()\<close> reads
  when it is called.  The result is the returned acq and the new \<^verbatim>\<open>_lastAcq\<close>.
\<close>

definition getAcq :: "int \<Rightarrow> int \<Rightarrow> Key \<Rightarrow> Key \<Rightarrow> py_error + (int \<times> int)" where
  "getAcq now lastAcq keyMin keyMax =
     (case validateKeyRange lastAcq keyMin keyMax of
        Inl e \<Rightarrow> Inl e
      | Inr _ \<Rightarrow>
          (let lastAcq1 = (if acq keyMax > lastAcq + ACQFOLLOWTHRESHOLD then now else lastAcq);
               lastAcq2 = min (acq keyMax) lastAcq1
           in Inr (lastAcq2, lastAcq2)))"

section \<open>response.py\<close>

datatype ResponseStatus = OK | ERROR | DISCONNECTED | BAD_REQUEST | UNPARSEABLE_ENTITY | NO_MEMORY

text \<open>
  The three response dataclasses, each extending the one before.  From here on \<open>acq\<close> is
  the field of a response, and the field of a key is written \<open>Key.acq\<close>.
\<close>

record Response =
  status :: ResponseStatus

record ResponseAcq = Response +
  acq :: int

record 'a ResponseGet = ResponseAcq +
  data :: "'a Record list"

text \<open>
  The constructor calls of channel.py: \<^verbatim>\<open>Response(s)\<close>, \<^verbatim>\<open>ResponseAcq(s)\<close> and
  \<^verbatim>\<open>ResponseGet(s, data=d)\<close> with the dataclass default \<^verbatim>\<open>acq = -1\<close> (and
  \<^verbatim>\<open>ResponseGet(s)\<close> with the default empty \<^verbatim>\<open>data\<close>), \<^verbatim>\<open>ResponseAcq(s, a)\<close> and
  \<^verbatim>\<open>ResponseGet(s, a, d)\<close>.
\<close>

definition response :: "ResponseStatus \<Rightarrow> Response" where
  "response s = \<lparr>status = s\<rparr>"

definition response_acq_with :: "ResponseStatus \<Rightarrow> int \<Rightarrow> ResponseAcq" where
  "response_acq_with s a = \<lparr>status = s, acq = a\<rparr>"

definition response_acq :: "ResponseStatus \<Rightarrow> ResponseAcq" where
  "response_acq s = response_acq_with s (- 1)"

definition response_get_with :: "ResponseStatus \<Rightarrow> int \<Rightarrow> 'a Record list \<Rightarrow> 'a ResponseGet" where
  "response_get_with s a d = \<lparr>status = s, acq = a, data = d\<rparr>"

definition response_get :: "ResponseStatus \<Rightarrow> 'a Record list \<Rightarrow> 'a ResponseGet" where
  "response_get s d = response_get_with s (- 1) d"

section \<open>The transport\<close>

text \<open>
  The socket and the peer behind it, as channel.py sees them.  \<open>sends\<close> scripts the
  successive \<^verbatim>\<open>sendall\<close> calls (each succeeds or raises; calls beyond the script succeed);
  \<open>recvs\<close> scripts what arrives: chunks of bytes, or an exception raised by the receive
  call that meets it; after the script the peer has closed the stream.  \<open>recv_calls\<close>
  records every completed \<^verbatim>\<open>recv_into\<close> call: its \<^verbatim>\<open>nbytes\<close> argument and the number of
  bytes it delivered.
\<close>

datatype send_outcome = Sent | Send_raises py_error

datatype recv_event = Data "byte list" | Recv_raises py_error

record network =
  sends :: "send_outcome list"
  recvs :: "recv_event list"
  recv_calls :: "(int \<times> nat) list"

definition sendall :: "network \<Rightarrow> byte list \<Rightarrow> py_error option \<times> network" where
  "sendall net d =
     (case sends net of
        [] \<Rightarrow> (None, net)
      | Sent # rest \<Rightarrow> (None, net\<lparr>sends := rest\<rparr>)
      | Send_raises e # rest \<Rightarrow> (Some e, net\<lparr>sends := rest\<rparr>))"

text \<open>
  \<^verbatim>\<open>socket.recv_into(buffer, nbytes)\<close>, \<open>buflen\<close> the length of the buffer: a negative
  \<^verbatim>\<open>nbytes\<close>, or one beyond the buffer, is a \<^verbatim>\<open>ValueError\<close>; \<^verbatim>\<open>nbytes = 0\<close> means the whole
  buffer.  The call delivers at most that many bytes of the next chunk; it returns no
  bytes when the stream has ended.
\<close>

definition recv_into :: "network \<Rightarrow> nat \<Rightarrow> int \<Rightarrow> (py_error + byte list) \<times> network" where
  "recv_into net buflen nbytes =
     (if nbytes < 0 then (Inl ValueError, net)
      else if int buflen < nbytes then (Inl ValueError, net)
      else
        (let recvlen = (if nbytes = 0 then buflen else nat nbytes) in
         case recvs net of
           [] \<Rightarrow> (Inr [], net\<lparr>recv_calls := recv_calls net @ [(nbytes, 0)]\<rparr>)
         | Recv_raises e # rest \<Rightarrow> (Inl e, net\<lparr>recvs := rest\<rparr>)
         | Data d # rest \<Rightarrow>
             (Inr (take recvlen d),
              net\<lparr>recvs := (if length d \<le> recvlen then rest else Data (drop recvlen d) # rest),
                  recv_calls := recv_calls net @ [(nbytes, min recvlen (length d))]\<rparr>)))"

fun script_size :: "recv_event list \<Rightarrow> nat" where
  "script_size [] = 0"
| "script_size (Data d # rest) = Suc (length d + script_size rest)"
| "script_size (Recv_raises e # rest) = Suc (script_size rest)"

section \<open>channel.py\<close>

text \<open>
  A channel, by the fields its requests read: the payload type, the memory limit, and
  whether \<^verbatim>\<open>_socket\<close> is set.
\<close>

record 'a Channel =
  payload_type :: "'a PayloadType"
  memory_limit :: "int option"
  connected :: bool

definition close :: "'a Channel \<Rightarrow> Response \<times> 'a Channel" where
  "close ch =
     (if connected ch then (response OK, ch\<lparr>connected := False\<rparr>) else (response ERROR, ch))"

definition is_over_memory_limit :: "'a Channel \<Rightarrow> int \<Rightarrow> bool" where
  "is_over_memory_limit ch sz = (case memory_limit ch of None \<Rightarrow> False | Some m \<Rightarrow> sz > m)"

definition is_at_memory_limit :: "'a Channel \<Rightarrow> int \<Rightarrow> bool" where
  "is_at_memory_limit ch sz = (case memory_limit ch of None \<Rightarrow> False | Some m \<Rightarrow> sz \<ge> m)"

text \<open>
  \<^verbatim>\<open>_feed_buffer\<close>: the bytes received are written into the free space of the buffer, which
  starts where the view \<^verbatim>\<open>memory[available:]\<close> starts.
\<close>

definition feed_buffer ::
  "ReceiveBuffer \<Rightarrow> int \<Rightarrow> network \<Rightarrow> (py_error + int \<times> ReceiveBuffer) \<times> network" where
  "feed_buffer buffer limit net =
     (case free_space buffer of
        Inl e \<Rightarrow> (Inl e, net)
      | Inr view \<Rightarrow>
          (case recv_into net (length view) (min limit (int (length view))) of
             (Inl e, net') \<Rightarrow> (Inl e, net')
           | (Inr d, net') \<Rightarrow>
               (let start = length (memory buffer) - length view;
                    written = buffer\<lparr>memory := take start (memory buffer) @ d
                                          @ drop (start + length d) (memory buffer)\<rparr>
                in (Inr (int (length d), increase_available written (int (length d))), net'))))"

lemma recv_into_decreases:
  "recv_into net buflen nbytes = (Inr d, net') \<Longrightarrow> d \<noteq> []
     \<Longrightarrow> script_size (recvs net') < script_size (recvs net)"
  by (auto simp: recv_into_def Let_def split: if_splits list.splits recv_event.splits)

lemma feed_buffer_decreases:
  "feed_buffer buffer limit net = (Inr (n, b), net') \<Longrightarrow> n \<noteq> 0
     \<Longrightarrow> script_size (recvs net') < script_size (recvs net)"
  by (auto simp: feed_buffer_def Let_def split: sum.splits prod.splits
      dest!: recv_into_decreases)

subsection \<open>put and puta\<close>








subsection \<open>get\_acq\<close>

function get_acq_loop :: "ReceiveBuffer \<Rightarrow> network \<Rightarrow> (py_error + ResponseAcq) \<times> network" where
  "get_acq_loop buffer net =
     (case feed_buffer buffer 0 net of
        (Inl e, net') \<Rightarrow> (Inl e, net')
      | (Inr (n, b), net') \<Rightarrow>
          if n = 0 then (Inr (response_acq DISCONNECTED), net')
          else
            (case handle_response b Fmt_q of
               Inl e \<Rightarrow> (Inl e, net')
             | Inr None \<Rightarrow> get_acq_loop b net'
             | Inr (Some (header, response_data, _)) \<Rightarrow>
                 if is_ok header then
                   (case response_data of
                      [] \<Rightarrow> (Inl IndexError, net')
                    | a # _ \<Rightarrow> (Inr (response_acq_with OK a), net'))
                 else (Inr (response_acq ERROR), net')))"
  by pat_completeness auto
termination
  by (relation "measure (\<lambda>(b, net). script_size (recvs net))")
     (auto dest: feed_buffer_decreases[OF sym])

declare get_acq_loop.simps [simp del]

definition get_acq ::
  "'a Channel \<Rightarrow> network \<Rightarrow> Key \<Rightarrow> Key \<Rightarrow> (py_error + ResponseAcq) \<times> network" where
  "get_acq ch net kmin kmax =
     (if \<not> connected ch then (Inr (response_acq DISCONNECTED), net)
      else
        (case prepare_keyrange_request GETACQ kmin kmax 64 of
           Inl e \<Rightarrow> (Inl e, net)
         | Inr request \<Rightarrow>
        (case sendall net request of
           (Some e, net1) \<Rightarrow> (Inl e, net1)
         | (None, net1) \<Rightarrow>
             get_acq_loop (new_buffer (RESPONSE_HEADER_SIZE + ACQ_SIZE + HEADER_AUX_SIZE)) net1)))"

subsection \<open>The state of a GET request\<close>

text \<open>
  The locals of \<^verbatim>\<open>get\<close>, \<^verbatim>\<open>get_stream\<close> and \<^verbatim>\<open>get_iter\<close>, and \<open>out\<close>: what the request has
  handed to its caller so far (nothing for \<^verbatim>\<open>get\<close>, the batches passed to the callback
  for \<^verbatim>\<open>get_stream\<close>, the items yielded for \<^verbatim>\<open>get_iter\<close>).

  One pass of the loop body ends in one of four ways: it falls through to the next
  \<^verbatim>\<open>if stage == ...\<close> block (\<open>Next\<close>), it \<^verbatim>\<open>continue\<close>s, it returns (a response and whether
  \<^verbatim>\<open>_early_close\<close> was applied to it), or an exception leaves it.  Each carries the state
  it ends in.
\<close>

record ('a, 'o) get_state =
  stage :: GetRequestState
  total_bytes :: int
  buffer :: ReceiveBuffer
  records :: "'a Record list"
  out :: 'o

datatype ('s, 'r) flow = Next 's | Continue 's | Return 'r 's | Raise py_error 's

definition then_block :: "('s, 'r) flow \<Rightarrow> ('s \<Rightarrow> ('s, 'r) flow) \<Rightarrow> ('s, 'r) flow" where
  "then_block f block = (case f of Next s \<Rightarrow> block s | other \<Rightarrow> other)"

definition initial_state :: "'a Channel \<Rightarrow> int \<Rightarrow> 'o \<Rightarrow> ('a, 'o) get_state" where
  "initial_state ch recv_buffer_size o0 =
     \<lparr>stage = INITIAL_HEADER, total_bytes = 0,
      buffer = new_buffer (case memory_limit ch of
                             None \<Rightarrow> recv_buffer_size
                           | Some m \<Rightarrow> min recv_buffer_size m),
      records = [], out = o0\<rparr>"

subsection \<open>get\<close>

definition get_initial_header ::
  "('a, unit) get_state \<Rightarrow> (('a, unit) get_state, 'a ResponseGet \<times> bool) flow" where
  "get_initial_header st =
     (if stage st = INITIAL_HEADER then
        (case handle_response (buffer st) Fmt_empty of
           Inl e \<Rightarrow> Raise e st
         | Inr None \<Rightarrow> Next st
         | Inr (Some (header, _, b)) \<Rightarrow>
             if \<not> is_ok header
             then Return (response_get BAD_REQUEST (records st), True) (st\<lparr>buffer := b\<rparr>)
             else Next (st\<lparr>buffer := b, stage := RECORDS_PARSING\<rparr>))
      else Next st)"

definition get_records_parsing ::
  "'a Channel \<Rightarrow> ('a, unit) get_state \<Rightarrow> (('a, unit) get_state, 'a ResponseGet \<times> bool) flow" where
  "get_records_parsing ch st =
     (if stage st = RECORDS_PARSING then
        (case parse_records (buffer st) (records st) (payload_type ch) (memory_limit ch) of
           Inl e \<Rightarrow> Raise e st
         | Inr (verdict, b, rs) \<Rightarrow>
             (let st' = st\<lparr>buffer := b, records := rs\<rparr> in
              case verdict of
                NEEDS_MORE_BYTES \<Rightarrow> Continue st'
              | FINISHED \<Rightarrow> Next (st'\<lparr>stage := FINAL_HEADER\<rparr>)
              | UNPARSEABLE \<Rightarrow> Return (response_get UNPARSEABLE_ENTITY rs, True) st'
              | RECORD_TOO_BIG \<Rightarrow> Return (response_get NO_MEMORY rs, True) st'))
      else Next st)"

definition get_final_header ::
  "('a, unit) get_state \<Rightarrow> (('a, unit) get_state, 'a ResponseGet \<times> bool) flow" where
  "get_final_header st =
     (if stage st = FINAL_HEADER then
        (case handle_response (buffer st) Fmt_q of
           Inl e \<Rightarrow> Raise e st
         | Inr None \<Rightarrow> Next st
         | Inr (Some (header, response_data, b)) \<Rightarrow>
             if is_ok header then
               (case response_data of
                  [] \<Rightarrow> Raise IndexError (st\<lparr>buffer := b\<rparr>)
                | a # _ \<Rightarrow> Return (response_get_with OK a (records st), False) (st\<lparr>buffer := b\<rparr>))
             else Return (response_get ERROR (records st), True) (st\<lparr>buffer := b\<rparr>))
      else Next st)"

definition get_body ::
  "'a Channel \<Rightarrow> ('a, unit) get_state \<Rightarrow> int
     \<Rightarrow> (('a, unit) get_state, 'a ResponseGet \<times> bool) flow" where
  "get_body ch st0 bytes_received =
     (let st = st0\<lparr>total_bytes := total_bytes st0 + bytes_received\<rparr> in
      if is_over_memory_limit ch (total_bytes st)
      then Return (response_get NO_MEMORY (records st), True) st
      else then_block (then_block (get_initial_header st) (get_records_parsing ch))
             get_final_header)"

function get_loop ::
  "'a Channel \<Rightarrow> ('a, unit) get_state \<Rightarrow> network
     \<Rightarrow> (py_error + 'a ResponseGet) \<times> 'a Channel \<times> network" where
  "get_loop ch st net =
     (case feed_buffer (buffer st) 0 net of
        (Inl e, net') \<Rightarrow> (Inl e, ch, net')
      | (Inr (n, b), net') \<Rightarrow>
          if n = 0 then (Inr (response_get DISCONNECTED (records st)), snd (close ch), net')
          else
            (case get_body ch (st\<lparr>buffer := b\<rparr>) n of
               Next st' \<Rightarrow> get_loop ch st' net'
             | Continue st' \<Rightarrow> get_loop ch st' net'
             | Return (r, early_close) _ \<Rightarrow>
                 (Inr r, (if early_close then snd (close ch) else ch), net')
             | Raise e _ \<Rightarrow> (Inl e, ch, net')))"
  by pat_completeness auto
termination
  by (relation "measure (\<lambda>(ch, st, net). script_size (recvs net))")
     (auto dest: feed_buffer_decreases[OF sym])

declare get_loop.simps [simp del]

definition get ::
  "'a Channel \<Rightarrow> network \<Rightarrow> Key \<Rightarrow> Key \<Rightarrow> int
     \<Rightarrow> (py_error + 'a ResponseGet) \<times> 'a Channel \<times> network" where
  "get ch net kmin kmax recv_buffer_size =
     (if \<not> connected ch then (Inr (response_get DISCONNECTED []), snd (close ch), net)
      else
        (case prepare_keyrange_request GET kmin kmax 64 of
           Inl e \<Rightarrow> (Inl e, ch, net)
         | Inr request \<Rightarrow>
        (case sendall net request of
           (Some e, net1) \<Rightarrow> (Inl e, ch, net1)
         | (None, net1) \<Rightarrow> get_loop ch (initial_state ch recv_buffer_size ()) net1)))"

subsection \<open>get\_stream\<close>

text \<open>
  \<open>out\<close> is the list of batches the callback has been called with.  \<open>flush\<close> is the
  recurring \<^verbatim>\<open>if records: callback(records); records.clear(); total_bytes = 0\<close>.
\<close>

definition flush :: "('a, 'a Record list list) get_state \<Rightarrow> ('a, 'a Record list list) get_state" where
  "flush st =
     (if records st \<noteq> []
      then st\<lparr>out := out st @ [records st], records := [], total_bytes := 0\<rparr>
      else st)"

text \<open>The \<^verbatim>\<open>limit\<close> argument: \<^verbatim>\<open>self._memory_limit - total_bytes if self._memory_limit else 0\<close>.\<close>

definition stream_limit :: "'a Channel \<Rightarrow> int \<Rightarrow> int" where
  "stream_limit ch received =
     (case memory_limit ch of None \<Rightarrow> 0 | Some m \<Rightarrow> if m \<noteq> 0 then m - received else 0)"

definition stream_initial_header ::
  "('a, 'o) get_state \<Rightarrow> (('a, 'o) get_state, ResponseAcq \<times> bool) flow" where
  "stream_initial_header st =
     (if stage st = INITIAL_HEADER then
        (case handle_response (buffer st) Fmt_empty of
           Inl e \<Rightarrow> Raise e st
         | Inr None \<Rightarrow> Next st
         | Inr (Some (header, _, b)) \<Rightarrow>
             if \<not> is_ok header
             then Return (response_acq BAD_REQUEST, True) (st\<lparr>buffer := b\<rparr>)
             else Next (st\<lparr>buffer := b, stage := RECORDS_PARSING\<rparr>))
      else Next st)"

definition stream_records_parsing ::
  "'a Channel \<Rightarrow> ('a, 'a Record list list) get_state
     \<Rightarrow> (('a, 'a Record list list) get_state, ResponseAcq \<times> bool) flow" where
  "stream_records_parsing ch st =
     (if stage st = RECORDS_PARSING then
        (case parse_records (buffer st) (records st) (payload_type ch) (memory_limit ch) of
           Inl e \<Rightarrow> Raise e st
         | Inr (verdict, b, rs) \<Rightarrow>
             (let st' = st\<lparr>buffer := b, records := rs\<rparr> in
              case verdict of
                NEEDS_MORE_BYTES \<Rightarrow>
                  if is_at_memory_limit ch (total_bytes st') then
                    (if rs \<noteq> [] then Continue (flush st')
                     else Return (response_acq NO_MEMORY, True) st')
                  else Next st'
              | FINISHED \<Rightarrow> Next ((flush st')\<lparr>stage := FINAL_HEADER\<rparr>)
              | UNPARSEABLE \<Rightarrow> Return (response_acq UNPARSEABLE_ENTITY, True) (flush st')
              | RECORD_TOO_BIG \<Rightarrow> Return (response_acq NO_MEMORY, True) (flush st')))
      else Next st)"

definition stream_final_header ::
  "('a, 'o) get_state \<Rightarrow> (('a, 'o) get_state, ResponseAcq \<times> bool) flow" where
  "stream_final_header st =
     (if stage st = FINAL_HEADER then
        (case handle_response (buffer st) Fmt_q of
           Inl e \<Rightarrow> Raise e st
         | Inr None \<Rightarrow> Next st
         | Inr (Some (header, response_data, b)) \<Rightarrow>
             if is_ok header then
               (case response_data of
                  [] \<Rightarrow> Raise IndexError (st\<lparr>buffer := b\<rparr>)
                | a # _ \<Rightarrow> Return (response_acq_with OK a, False) (st\<lparr>buffer := b\<rparr>))
             else Return (response_acq ERROR, True) (st\<lparr>buffer := b\<rparr>))
      else Next st)"

definition get_stream_body ::
  "'a Channel \<Rightarrow> ('a, 'a Record list list) get_state \<Rightarrow> int
     \<Rightarrow> (('a, 'a Record list list) get_state, ResponseAcq \<times> bool) flow" where
  "get_stream_body ch st0 bytes_received =
     (let st = st0\<lparr>total_bytes := total_bytes st0 + bytes_received\<rparr> in
      then_block (then_block (stream_initial_header st) (stream_records_parsing ch))
        stream_final_header)"

text \<open>
  The result of \<^verbatim>\<open>get_stream\<close>: the response or the exception, the batches passed to the
  callback, the channel and the transport afterwards.
\<close>

function get_stream_loop ::
  "'a Channel \<Rightarrow> ('a, 'a Record list list) get_state \<Rightarrow> network
     \<Rightarrow> (py_error + ResponseAcq) \<times> 'a Record list list \<times> 'a Channel \<times> network" where
  "get_stream_loop ch st net =
     (case feed_buffer (buffer st) (stream_limit ch (total_bytes st)) net of
        (Inl e, net') \<Rightarrow> (Inl e, out st, ch, net')
      | (Inr (n, b), net') \<Rightarrow>
          if n = 0
          then (Inr (response_acq DISCONNECTED),
                (if records st \<noteq> [] then out st @ [records st] else out st),
                snd (close ch), net')
          else
            (case get_stream_body ch (st\<lparr>buffer := b\<rparr>) n of
               Next st' \<Rightarrow> get_stream_loop ch st' net'
             | Continue st' \<Rightarrow> get_stream_loop ch st' net'
             | Return (r, early_close) st' \<Rightarrow>
                 (Inr r, out st', (if early_close then snd (close ch) else ch), net')
             | Raise e st' \<Rightarrow> (Inl e, out st', ch, net')))"
  by pat_completeness auto
termination
  by (relation "measure (\<lambda>(ch, st, net). script_size (recvs net))")
     (auto dest: feed_buffer_decreases[OF sym])

declare get_stream_loop.simps [simp del]

definition get_stream ::
  "'a Channel \<Rightarrow> network \<Rightarrow> Key \<Rightarrow> Key \<Rightarrow> int
     \<Rightarrow> (py_error + ResponseAcq) \<times> 'a Record list list \<times> 'a Channel \<times> network" where
  "get_stream ch net kmin kmax recv_buffer_size =
     (if \<not> connected ch then (Inr (response_acq DISCONNECTED), [], snd (close ch), net)
      else
        (case prepare_keyrange_request GET kmin kmax 64 of
           Inl e \<Rightarrow> (Inl e, [], ch, net)
         | Inr request \<Rightarrow>
        (case sendall net request of
           (Some e, net1) \<Rightarrow> (Inl e, [], ch, net1)
         | (None, net1) \<Rightarrow> get_stream_loop ch (initial_state ch recv_buffer_size []) net1)))"

subsection \<open>get\_iter\<close>

text \<open>
  \<open>out\<close> is the sequence of items yielded.  \<open>yield_records\<close> is
  \<^verbatim>\<open>yield from records\<close>; \<open>yield_response\<close> yields a response.  The generator is run to its
  end: the result is what it yielded and the exception that ended it, if any.
\<close>

datatype 'a item = Rec "'a Record" | Resp ResponseAcq

definition yield_records :: "('a, 'a item list) get_state \<Rightarrow> ('a, 'a item list) get_state" where
  "yield_records st = st\<lparr>out := out st @ map Rec (records st)\<rparr>"

definition yield_response ::
  "ResponseAcq \<Rightarrow> ('a, 'a item list) get_state \<Rightarrow> ('a, 'a item list) get_state" where
  "yield_response r st = st\<lparr>out := out st @ [Resp r]\<rparr>"

definition iter_initial_header ::
  "('a, 'a item list) get_state \<Rightarrow> (('a, 'a item list) get_state, bool) flow" where
  "iter_initial_header st =
     (if stage st = INITIAL_HEADER then
        (case handle_response (buffer st) Fmt_empty of
           Inl e \<Rightarrow> Raise e st
         | Inr None \<Rightarrow> Next st
         | Inr (Some (header, _, b)) \<Rightarrow>
             if \<not> is_ok header
             then Return True (yield_response (response_acq BAD_REQUEST) (st\<lparr>buffer := b\<rparr>))
             else Next (st\<lparr>buffer := b, stage := RECORDS_PARSING\<rparr>))
      else Next st)"

definition iter_records_parsing ::
  "'a Channel \<Rightarrow> ('a, 'a item list) get_state
     \<Rightarrow> (('a, 'a item list) get_state, bool) flow" where
  "iter_records_parsing ch st =
     (if stage st = RECORDS_PARSING then
        (case parse_records (buffer st) (records st) (payload_type ch) (memory_limit ch) of
           Inl e \<Rightarrow> Raise e st
         | Inr (parsing_status, b, rs) \<Rightarrow>
             (let st' = (yield_records (st\<lparr>buffer := b, records := rs\<rparr>))\<lparr>records := []\<rparr> in
              case parsing_status of
                NEEDS_MORE_BYTES \<Rightarrow> Continue st'
              | FINISHED \<Rightarrow> Next (st'\<lparr>stage := FINAL_HEADER\<rparr>)
              | UNPARSEABLE \<Rightarrow>
                  Return True (yield_response (response_acq UNPARSEABLE_ENTITY) st')
              | RECORD_TOO_BIG \<Rightarrow> Return True (yield_response (response_acq NO_MEMORY) st')))
      else Next st)"

definition iter_final_header ::
  "('a, 'a item list) get_state \<Rightarrow> (('a, 'a item list) get_state, bool) flow" where
  "iter_final_header st =
     (if stage st = FINAL_HEADER then
        (case handle_response (buffer st) Fmt_q of
           Inl e \<Rightarrow> Raise e st
         | Inr None \<Rightarrow> Next st
         | Inr (Some (header, response_data, b)) \<Rightarrow>
             if is_ok header then
               (case response_data of
                  [] \<Rightarrow> Raise IndexError (st\<lparr>buffer := b\<rparr>)
                | a # _ \<Rightarrow>
                    Return False (yield_response (response_acq_with OK a) (st\<lparr>buffer := b\<rparr>)))
             else Return True (yield_response (response_acq ERROR) (st\<lparr>buffer := b\<rparr>)))
      else Next st)"

definition get_iter_body ::
  "'a Channel \<Rightarrow> ('a, 'a item list) get_state \<Rightarrow> int
     \<Rightarrow> (('a, 'a item list) get_state, bool) flow" where
  "get_iter_body ch st0 bytes_received =
     (let st = st0\<lparr>total_bytes := total_bytes st0 + bytes_received\<rparr> in
      if is_over_memory_limit ch (total_bytes st)
      then Return True (yield_response (response_acq NO_MEMORY) (yield_records st))
      else then_block (then_block (iter_initial_header st) (iter_records_parsing ch))
             iter_final_header)"

function get_iter_loop ::
  "'a Channel \<Rightarrow> ('a, 'a item list) get_state \<Rightarrow> network
     \<Rightarrow> ('a item list \<times> py_error option) \<times> 'a Channel \<times> network" where
  "get_iter_loop ch st net =
     (case feed_buffer (buffer st) 0 net of
        (Inl e, net') \<Rightarrow> ((out st, Some e), ch, net')
      | (Inr (n, b), net') \<Rightarrow>
          if n = 0
          then ((out (yield_response (response_acq DISCONNECTED) (yield_records st)), None),
                snd (close ch), net')
          else
            (case get_iter_body ch (st\<lparr>buffer := b\<rparr>) n of
               Next st' \<Rightarrow> get_iter_loop ch st' net'
             | Continue st' \<Rightarrow> get_iter_loop ch st' net'
             | Return early_close st' \<Rightarrow>
                 ((out st', None), (if early_close then snd (close ch) else ch), net')
             | Raise e st' \<Rightarrow> ((out st', Some e), ch, net')))"
  by pat_completeness auto
termination
  by (relation "measure (\<lambda>(ch, st, net). script_size (recvs net))")
     (auto dest: feed_buffer_decreases[OF sym])

declare get_iter_loop.simps [simp del]

definition get_iter ::
  "'a Channel \<Rightarrow> network \<Rightarrow> Key \<Rightarrow> Key \<Rightarrow> int
     \<Rightarrow> ('a item list \<times> py_error option) \<times> 'a Channel \<times> network" where
  "get_iter ch net kmin kmax recv_buffer_size =
     (if \<not> connected ch then (([Resp (response_acq DISCONNECTED)], None), snd (close ch), net)
      else
        (case prepare_keyrange_request GET kmin kmax 64 of
           Inl e \<Rightarrow> (([], Some e), ch, net)
         | Inr request \<Rightarrow>
        (case sendall net request of
           (Some e, net1) \<Rightarrow> (([], Some e), ch, net1)
         | (None, net1) \<Rightarrow> get_iter_loop ch (initial_state ch recv_buffer_size []) net1)))"

section \<open>Predicates of the proofs\<close>


text \<open>
  \<open>sentinel_items\<close>: every response among the items \<^verbatim>\<open>get_iter\<close> has yielded has
  \<open>acq = -1\<close> unless its status is \<open>OK\<close>.  \<open>flow_all P\<close>: the state in which a pass of a
  loop body ends satisfies \<open>P\<close>.
\<close>

definition sentinel_items :: "'a item list \<Rightarrow> bool" where
  "sentinel_items items =
     list_all (\<lambda>i. case i of Rec _ \<Rightarrow> True
                     | Resp r \<Rightarrow> if status r \<noteq> OK then acq r = - 1 else True) items"

definition flow_all :: "('s \<Rightarrow> bool) \<Rightarrow> ('s, 'r) flow \<Rightarrow> bool" where
  "flow_all P f =
     (case f of Next s \<Rightarrow> P s | Continue s \<Rightarrow> P s | Return _ s \<Rightarrow> P s | Raise _ s \<Rightarrow> P s)"

text \<open>
  The items \<^verbatim>\<open>get_iter\<close> has yielded are records only until it returns; a pass of the body
  that returns has just yielded one response.
\<close>

definition records_only :: "('a, 'a item list) get_state \<Rightarrow> bool" where
  "records_only st = (\<exists>rs. out st = map Rec rs)"

definition terminated :: "('a, 'a item list) get_state \<Rightarrow> bool" where
  "terminated st = (\<exists>rs r. out st = map Rec rs @ [Resp r])"

definition iter_flow :: "(('a, 'a item list) get_state, bool) flow \<Rightarrow> bool" where
  "iter_flow f =
     (case f of
        Next s \<Rightarrow> records_only s
      | Continue s \<Rightarrow> records_only s
      | Return _ s \<Rightarrow> terminated s
      | Raise _ s \<Rightarrow> records_only s)"




section \<open>Properties\<close>

subsection \<open>Little-endian fields\<close>

lemma le_unsigned_encode: "le_unsigned (le_encode n x) = x mod 2 ^ (8 * n)"
proof (induction n arbitrary: x)
  case 0 show ?case by simp
next
  case (Suc n)
  have "x mod 256 + 256 * (x div 256 mod 2 ^ (8 * n)) = x mod (256 * 2 ^ (8 * n))"
    using zmod_zmult2_eq[of "2 ^ (8 * n)" x 256] by simp
  then show ?case using Suc by (simp add: uint_word_of_int take_bit_eq_mod power_add)
qed

lemma length_le_encode: "length (le_encode n x) = n"
  by (induction n arbitrary: x) auto

lemma le_signed_encode:
  assumes "0 < n" "- (2 ^ (8 * n - 1)) \<le> x" "x < 2 ^ (8 * n - 1)"
  shows "le_signed (le_encode n x) = x"
proof -
  have p: "(2::int) ^ (8 * n) = 2 * 2 ^ (8 * n - 1)"
    using assms(1) by (metis One_nat_def Suc_pred mult_pos_pos power_Suc zero_less_numeral)
  show ?thesis
  proof (cases "0 \<le> x")
    case True
    then have "x mod 2 ^ (8 * n) = x" using assms p by simp
    then show ?thesis
      using assms True by (simp add: le_signed_def le_unsigned_encode length_le_encode)
  next
    case False
    then have "x mod 2 ^ (8 * n) = x + 2 ^ (8 * n)" using assms p
      by (smt (verit) mod_add_self2 mod_pos_pos_trivial)
    then show ?thesis
      using assms False p by (simp add: le_signed_def le_unsigned_encode length_le_encode)
  qed
qed

subsection \<open>Keys on the wire\<close>

text \<open>
  C5, as amended.  For every valid key (\<open>cid \<ge> 0\<close>) whose fields fit their wire widths,
  the 32-byte encoding decodes to the key itself, so decoding and encoding again gives
  the same 32 bytes.
\<close>

theorem key_roundtrip_valid:
  assumes "valid k" "in_i32 (cid k)" "in_i64 (mid k)" "in_i32 (moid k)" "in_i64 (cap k)"
    "in_i64 (Key.acq k)"
  shows "\<exists>bs. key_to_bytes k True True = Inr bs \<and> length bs = 32
            \<and> key_from_bytes bs = Some k
            \<and> map_option (\<lambda>k'. key_to_bytes k' True True) (key_from_bytes bs) = Some (Inr bs)"
  using assms
  by (simp add: key_to_bytes_def pack_fields_def key_from_bytes_def in_i32_def in_i64_def
      length_le_encode le_signed_encode mk_key_def Let_def valid_def)

theorem key_roundtrip_valid_witness:
  "valid (mk_key 1 2 3 4 5) \<and>
   (\<exists>bs. key_to_bytes (mk_key 1 2 3 4 5) True True = Inr bs \<and> length bs = 32
      \<and> key_from_bytes bs = Some (mk_key 1 2 3 4 5)
      \<and> map_option (\<lambda>k'. key_to_bytes k' True True) (key_from_bytes bs) = Some (Inr bs))"
  using key_roundtrip_valid[of "mk_key 1 2 3 4 5"]
  by (simp add: valid_def mk_key_def in_i32_def in_i64_def)

text \<open>
  C5 as stated fails on an invalid key: the default key, all fields \<open>-1\<close>, encodes to 32
  bytes \<open>0xff\<close>, which \<^verbatim>\<open>Key.from_bytes\<close> rejects, so there is nothing to encode again.
\<close>

theorem key_roundtrip_invalid_counterexample:
  "key_to_bytes (mk_key (- 1) (- 1) (- 1) (- 1) (- 1)) True True = Inr (replicate 32 255)
   \<and> key_from_bytes (replicate 32 255) = None"
  by code_simp

subsection \<open>Tstoragedatetime\<close>

lemma py_int_of_int_div:
  "py_int (of_int k / 10 ^ 6) = (if k < 0 then - ((- k) div 10 ^ 6) else k div 10 ^ 6)"
proof -
  have a: "\<lfloor>(of_int k :: rat) / 10 ^ 6\<rfloor> = k div 10 ^ 6"
    using floor_divide_of_int_eq[of k "10 ^ 6", where ?'a = rat] by simp
  have b: "\<lfloor>(of_int (- k) :: rat) / 10 ^ 6\<rfloor> = (- k) div 10 ^ 6"
    using floor_divide_of_int_eq[of "- k" "10 ^ 6", where ?'a = rat] by simp
  have c: "(of_int k :: rat) / 10 ^ 6 < 0 \<longleftrightarrow> k < 0"
    by (simp add: divide_less_0_iff)
  show ?thesis
    unfolding py_int_def c using a b by (simp add: ceiling_def)
qed

lemma to_unix_ns_int:
  "to_unix_ns x =
     ((let k = epoch_seconds (datetime x) * 10 ^ 6 + microsecond (datetime x)
       in if k < 0 then - ((- k) div 10 ^ 6) else k div 10 ^ 6) * 10 ^ 6
      + microsecond (datetime x)) * 1000 + nanoseconds x"
  unfolding to_unix_ns_def timestamp_def py_int_of_int_div by (simp add: Let_def)

lemma digit:
  fixes a b r :: int
  assumes "0 \<le> r" "r < b"
  shows "(a * b + r) div b = a" and "(a * b + r) mod b = r"
  using assms by (simp_all add: div_pos_pos_trivial)

lemma from_unix_ns_to_unix_ns_after_epoch: 
  assumes "0 \<le> epoch_seconds (datetime x)" "0 \<le> microsecond (datetime x)" "microsecond (datetime x) < 10 ^ 6"
     "0 \<le> nanoseconds x" "nanoseconds x < 1000"
  shows "from_unix_ns (to_unix_ns x) = x"
proof -
  let ?s = "epoch_seconds (datetime x)" and ?m = "microsecond (datetime x)" and ?n = "nanoseconds x"
  have k: "\<not> ?s * 10 ^ 6 + ?m < 0" using assms by simp
  have d: "(?s * 10 ^ 6 + ?m) div 10 ^ 6 = ?s" using digit(1)[of ?m "10 ^ 6" ?s] assms by simp
  have m: "(?s * 10 ^ 6 + ?m) mod 10 ^ 6 = ?m" using digit(2)[of ?m "10 ^ 6" ?s] assms by simp
  have t: "to_unix_ns x = (?s * 10 ^ 6 + ?m) * 1000 + ?n"
    unfolding to_unix_ns_int Let_def using k d by simp
  have n: "((?s * 10 ^ 6 + ?m) * 1000 + ?n) mod 1000 = ?n" 
    using digit(2)[of ?n 1000 "?s * 10 ^ 6 + ?m"] assms by simp
  have q: "((?s * 10 ^ 6 + ?m) * 1000 + ?n) div 1000 = ?s * 10 ^ 6 + ?m" 
    using digit(1)[of ?n 1000 "?s * 10 ^ 6 + ?m"] assms by simp
  have e: "((?s * 10 ^ 6 + ?m) * 1000 + ?n) div 10 ^ 9 = ?s"
  proof -
    have "((?s * 10 ^ 6 + ?m) * 1000 + ?n) div (1000 * 10 ^ 6) = (((?s * 10 ^ 6 + ?m) * 1000 + ?n) div 1000) div 10 ^ 6"
      by (rule zdiv_zmult2_eq) simp
    then show ?thesis using q d by simp
  qed
  have "from_unix_ns ((?s * 10 ^ 6 + ?m) * 1000 + ?n) = x"
    unfolding from_unix_ns_def Let_def n e q m
    by (simp add: fromtimestamp_def replace_microsecond_def)
  then show ?thesis using t by simp
qed

text \<open>
  C6 at a datetime before 1970 with a fractional second: half a second before the epoch
  (\<^verbatim>\<open>1969-12-31T23:59:59.500000Z\<close>) converts to 500000000 ns, which converts back to half
  a second after the epoch.
\<close>

theorem from_unix_ns_to_unix_ns_before_epoch:
  "to_unix_ns \<lparr>datetime = \<lparr>epoch_seconds = - 1, microsecond = 500000\<rparr>, nanoseconds = 0\<rparr>
     = 500000000
   \<and> from_unix_ns (to_unix_ns
        \<lparr>datetime = \<lparr>epoch_seconds = - 1, microsecond = 500000\<rparr>, nanoseconds = 0\<rparr>)
     = \<lparr>datetime = \<lparr>epoch_seconds = 0, microsecond = 500000\<rparr>, nanoseconds = 0\<rparr>"
  by (simp add: to_unix_ns_int from_unix_ns_def fromtimestamp_def replace_microsecond_def)

subsection \<open>The receive buffer\<close>

lemma py_slice_prefix: "py_slice (xs @ ys) 0 (int (length xs)) = xs"
  by (simp add: py_slice_def py_index_def)

text \<open>
  C7.  In a buffer with \<open>0 \<le> current \<le> available \<le> capacity\<close>, \<^verbatim>\<open>truncate\<close> succeeds,
  leaves \<open>current = 0\<close> and \<open>available\<close> reduced by the old \<open>current\<close>, and keeps the
  logical content (and the capacity), whether or not the shifted ranges overlap.
\<close>

theorem truncate_keeps_content:
  assumes "0 \<le> current b" "current b \<le> available b" "available b \<le> int (length (memory b))"
  shows "\<exists>b'. buf_truncate b = Inr b' \<and> current b' = 0
            \<and> available b' = available b - current b
            \<and> content b' = content b
            \<and> length (memory b') = length (memory b)"
proof (cases "current b = 0")
  case True
  then show ?thesis by (simp add: buf_truncate_def)
next
  case False
  let ?n = "length (memory b)"
  let ?d = "available b - current b"
  let ?src = "py_slice (memory b) (current b) (available b)"
  have ic: "py_index ?n (current b) = nat (current b)"
    and ia: "py_index ?n (available b) = nat (available b)"
    and id: "py_index ?n ?d = nat ?d"
    using assms by (auto simp: py_index_def)
  have ls: "length ?src = nat ?d"
    using assms by (simp add: length_py_slice ia ic nat_diff_distrib)
  have t: "buf_truncate b = Inr \<lparr>memory = ?src @ drop (nat ?d) (memory b), current = 0, available = ?d\<rparr>"
    using False ls by (simp add: buf_truncate_def Let_def id)
  have len: "length (?src @ drop (nat ?d) (memory b)) = ?n"
    using assms ls by simp
  have c0: "content b = ?src"
    by (simp add: content_def peek_def buf_len_def Let_def)
  have "int (length ?src) = ?d" using ls assms by simp
  then have c1: "content \<lparr>memory = ?src @ drop (nat ?d) (memory b), current = 0, available = ?d\<rparr> = ?src"
    using py_slice_prefix[of ?src "drop (nat ?d) (memory b)"]
    by (simp add: content_def peek_def buf_len_def Let_def)
  show ?thesis using t c0 c1 len by simp
qed

theorem truncate_keeps_content_witness:
  "buf_truncate \<lparr>memory = [1, 2, 3, 4, 5, 6, 7, 8], current = 2, available = 7\<rparr>
     = Inr \<lparr>memory = [3, 4, 5, 6, 7, 6, 7, 8], current = 0, available = 5\<rparr>
   \<and> content \<lparr>memory = [3, 4, 5, 6, 7, 6, 7, 8], current = 0, available = 5\<rparr> = [3, 4, 5, 6, 7]
   \<and> content \<lparr>memory = [1, 2, 3, 4, 5, 6, 7, 8], current = 2, available = 7\<rparr> = [3, 4, 5, 6, 7]"
proof -
  have t: "buf_truncate \<lparr>memory = [1, 2, 3, 4, 5, 6, 7, 8], current = 2, available = 7\<rparr>
     = Inr \<lparr>memory = [3, 4, 5, 6, 7, 6, 7, 8], current = 0, available = 5\<rparr>"
    by code_simp
  have c: "content \<lparr>memory = [1, 2, 3, 4, 5, 6, 7, 8], current = 2, available = 7\<rparr> = [3, 4, 5, 6, 7]"
    by code_simp
  from truncate_keeps_content[of "\<lparr>memory = [1, 2, 3, 4, 5, 6, 7, 8], current = 2, available = 7\<rparr>"]
  show ?thesis using t c by simp
qed

subsection \<open>The mock server's getAcq\<close>

text \<open>
  C8.  On a key range that passes the validation, \<^verbatim>\<open>getAcq\<close> returns (and stores) the
  minimum of \<open>key_max.acq\<close> and the last acq, the latter replaced by \<open>now\<close> when
  \<open>key_max.acq\<close> is more than \<open>10\<^sup>7\<close> ahead of it; the result never exceeds \<open>key_max.acq\<close>,
  and is 15 when \<open>key_max.acq = 15\<close> and the last acq is at least 15.
\<close>

theorem getAcq_clamps:
  assumes "validateKeyRange lastAcq keyMin keyMax = Inr ()"
  shows "\<exists>r. getAcq now lastAcq keyMin keyMax = Inr (r, r)
           \<and> r = min (Key.acq keyMax) (if Key.acq keyMax > lastAcq + 10 ^ 7 then now else lastAcq)
           \<and> r \<le> Key.acq keyMax
           \<and> (if 15 \<le> lastAcq \<and> Key.acq keyMax = 15 then r = 15 else True)"
  using assms by (simp add: getAcq_def ACQFOLLOWTHRESHOLD_def Let_def)

theorem getAcq_clamps_witness:
  "validateKeyRange 20 (mk_key 0 0 0 0 0) (mk_key 2 13 4 11 15) = Inr ()
   \<and> getAcq 1000 20 (mk_key 0 0 0 0 0) (mk_key 2 13 4 11 15) = Inr (15, 15)"
proof -
  have v: "validateKeyRange 20 (mk_key 0 0 0 0 0) (mk_key 2 13 4 11 15) = Inr ()"
    by (simp add: validateKeyRange_def validateKey_def server_key_lt_def mk_key_def)
  from getAcq_clamps[OF v, of 1000] show ?thesis using v by (auto simp: mk_key_def)
qed

subsection \<open>put and puta\<close>












subsection \<open>The outbound batcher\<close>

text \<open>
  C2 at two records of 32 encoded bytes each (28 bytes of key, no value, behind the 4-byte
  size) and \<open>max_batch_size = 60\<close>: the pending 32 bytes and the next record make 64, yet
  the test \<open>flushes\<close> compares \<open>32 + 28\<close> with 60, and one frame goes out with a payload
  of 64 bytes.
\<close>

theorem serialize_batch_exceeds_max_batch_size:
  "serialize_records_batches_iter
     [\<lparr>key = mk_key 0 0 0 0 0, value = []\<rparr>, \<lparr>key = mk_key 0 0 0 1 0, value = []\<rparr>]
     True BytesPayloadType 60 False
   = ([le_encode 4 0 @ le_encode 4 64
        @ le_encode 4 28 @ le_encode 8 0 @ le_encode 4 0 @ le_encode 8 0 @ le_encode 8 0
        @ le_encode 4 28 @ le_encode 8 0 @ le_encode 4 0 @ le_encode 8 1 @ le_encode 8 0],
      None)
   \<and> flushes (le_encode 4 28 @ le_encode 8 0 @ le_encode 4 0 @ le_encode 8 0 @ le_encode 8 0)
        60 28 = False"
  by code_simp

subsection \<open>get\_stream and the memory limit\<close>

text \<open>
  C3 at \<open>memory_limit = 5\<close>, the peer sending the 36 bytes of an empty result.  The first
  read asks for 5 bytes; then \<open>memory_limit - total_bytes = 0\<close>, the second read is made
  with \<^verbatim>\<open>nbytes = 0\<close> and receives the 27 bytes that fill the buffer; the third is made
  with \<^verbatim>\<open>nbytes = -27\<close> and raises \<^verbatim>\<open>ValueError\<close>.
\<close>

theorem get_stream_read_at_memory_limit:
  "(case get_stream \<lparr>payload_type = BytesPayloadType, memory_limit = Some 5, connected = True\<rparr>
           \<lparr>sends = [],
            recvs = [Data (le_encode 4 0 @ le_encode 8 0 @ le_encode 4 0
                             @ le_encode 4 0 @ le_encode 8 8 @ le_encode 8 77)],
            recv_calls = []\<rparr>
           key_min key_max 65536 of
      (outcome, batches, ch, net) \<Rightarrow> (outcome, batches, recv_calls net))
   = (Inl ValueError, [], [(5, 5), (0, 27)])
   \<and> stream_limit \<lparr>payload_type = BytesPayloadType, memory_limit = Some 5, connected = True\<rparr> 5
       = 0"
  by code_simp

subsection \<open>\_parse\_records\<close>

lemma increase_fields [simp]:
  "memory (increase b n) = memory b" "available (increase b n) = available b"
  "current (increase b n) = current b + n" "(increase b n)\<lparr>current := p\<rparr> = b\<lparr>current := p\<rparr>"
  by (simp_all add: increase_def)





subsection \<open>The acq of a failed request\<close>

lemmas response_defs =
  response_def response_acq_def response_acq_with_def response_get_def response_get_with_def

lemma get_acq_loop_sentinel:
  "get_acq_loop b net = (Inr r, net') \<Longrightarrow> status r \<noteq> OK \<Longrightarrow> acq r = - 1"
proof (induction b net rule: get_acq_loop.induct)
  case (1 buffer net)
  from "1.prems" show ?case
    apply (subst (asm) get_acq_loop.simps)
    using "1.IH"
    by (auto simp: response_defs split: prod.splits sum.splits if_splits option.splits
        list.splits)
qed

lemma then_block_Return:
  "then_block f g = Return x s
     \<Longrightarrow> f = Return x s \<or> (\<exists>s1. f = Next s1 \<and> g s1 = Return x s)"
  by (cases f) (simp_all add: then_block_def)

lemma get_initial_header_sentinel:
  "get_initial_header st = Return (r, c) st' \<Longrightarrow> status r \<noteq> OK \<Longrightarrow> acq r = - 1"
  by (auto simp: get_initial_header_def response_defs
      split: if_splits sum.splits option.splits prod.splits)

lemma get_records_parsing_sentinel:
  "get_records_parsing ch st = Return (r, c) st' \<Longrightarrow> status r \<noteq> OK \<Longrightarrow> acq r = - 1"
  by (auto simp: get_records_parsing_def Let_def response_defs
      split: if_splits sum.splits prod.splits RecordsParsingStatus.splits)

lemma get_final_header_sentinel:
  "get_final_header st = Return (r, c) st' \<Longrightarrow> status r \<noteq> OK \<Longrightarrow> acq r = - 1"
  by (auto simp: get_final_header_def response_defs
      split: if_splits sum.splits option.splits prod.splits list.splits)

lemma get_body_sentinel:
  assumes "get_body ch st n = Return (r, c) st'" "status r \<noteq> OK"
  shows "acq r = - 1"
proof (cases "is_over_memory_limit ch (total_bytes st + n)")
  case True
  then show ?thesis using assms by (auto simp: get_body_def Let_def response_defs)
next
  case False
  then have "then_block (then_block (get_initial_header (st\<lparr>total_bytes := total_bytes st + n\<rparr>))
                 (get_records_parsing ch)) get_final_header = Return (r, c) st'"
    using assms(1) by (simp add: get_body_def Let_def)
  then show ?thesis
    using assms(2)
    by (auto dest!: then_block_Return
        dest: get_initial_header_sentinel get_records_parsing_sentinel
          get_final_header_sentinel)
qed

lemma get_loop_sentinel:
  "get_loop ch st net = (Inr r, ch', net') \<Longrightarrow> status r \<noteq> OK \<Longrightarrow> acq r = - 1"
proof (induction ch st net rule: get_loop.induct)
  case (1 ch st net)
  from "1.prems" show ?case
    apply (subst (asm) get_loop.simps)
    using "1.IH"
    by (auto simp: response_defs split: prod.splits sum.splits if_splits flow.splits
        dest: get_body_sentinel)
qed

lemma stream_initial_header_sentinel:
  "stream_initial_header st = Return (r, c) st' \<Longrightarrow> status r \<noteq> OK \<Longrightarrow> acq r = - 1"
  by (auto simp: stream_initial_header_def response_defs
      split: if_splits sum.splits option.splits prod.splits)

lemma stream_records_parsing_sentinel:
  "stream_records_parsing ch st = Return (r, c) st' \<Longrightarrow> status r \<noteq> OK \<Longrightarrow> acq r = - 1"
  by (auto simp: stream_records_parsing_def Let_def response_defs
      split: if_splits sum.splits prod.splits RecordsParsingStatus.splits)

lemma stream_final_header_sentinel:
  "stream_final_header st = Return (r, c) st' \<Longrightarrow> status r \<noteq> OK \<Longrightarrow> acq r = - 1"
  by (auto simp: stream_final_header_def response_defs
      split: if_splits sum.splits option.splits prod.splits list.splits)

lemma get_stream_body_sentinel:
  assumes "get_stream_body ch st n = Return (r, c) st'" "status r \<noteq> OK"
  shows "acq r = - 1"
  using assms
  by (auto simp: get_stream_body_def Let_def dest!: then_block_Return
      dest: stream_initial_header_sentinel stream_records_parsing_sentinel
        stream_final_header_sentinel)

lemma get_stream_loop_sentinel:
  "get_stream_loop ch st net = (Inr r, batches, ch', net') \<Longrightarrow> status r \<noteq> OK
     \<Longrightarrow> acq r = - 1"
proof (induction ch st net rule: get_stream_loop.induct)
  case (1 ch st net)
  from "1.prems" show ?case
    apply (subst (asm) get_stream_loop.simps)
    using "1.IH"
    by (auto simp: response_defs split: prod.splits sum.splits if_splits flow.splits
        dest: get_stream_body_sentinel)
qed

lemma sentinel_items_append [simp]:
  "sentinel_items (xs @ ys) \<longleftrightarrow> sentinel_items xs \<and> sentinel_items ys"
  by (simp add: sentinel_items_def)

lemma sentinel_items_Nil [simp]: "sentinel_items []"
  by (simp add: sentinel_items_def)

lemma sentinel_items_Rec [simp]: "sentinel_items (map Rec rs)"
  by (simp add: sentinel_items_def list_all_iff)

lemma sentinel_items_Resp [simp]:
  "sentinel_items [Resp (response_acq s)]" "sentinel_items [Resp (response_acq_with OK a)]"
  by (simp_all add: sentinel_items_def response_defs)

lemma flow_all_simps [simp]:
  "flow_all P (Next s) = P s" "flow_all P (Continue s) = P s"
  "flow_all P (Return x s) = P s" "flow_all P (Raise e s) = P s"
  by (simp_all add: flow_all_def)

lemma flow_all_then_block:
  assumes "flow_all P f" "\<And>s. P s \<Longrightarrow> flow_all P (g s)"
  shows "flow_all P (then_block f g)"
  using assms by (cases f) (simp_all add: then_block_def)

lemma iter_initial_header_sentinel:
  "sentinel_items (out st) \<Longrightarrow> flow_all (\<lambda>s. sentinel_items (out s)) (iter_initial_header st)"
  by (auto simp: iter_initial_header_def yield_response_def
      split: if_splits sum.splits option.splits prod.splits)

lemma iter_records_parsing_sentinel:
  "sentinel_items (out st)
     \<Longrightarrow> flow_all (\<lambda>s. sentinel_items (out s)) (iter_records_parsing ch st)"
  by (auto simp: iter_records_parsing_def Let_def yield_response_def yield_records_def
      split: if_splits sum.splits prod.splits RecordsParsingStatus.splits)

lemma iter_final_header_sentinel:
  "sentinel_items (out st) \<Longrightarrow> flow_all (\<lambda>s. sentinel_items (out s)) (iter_final_header st)"
  by (auto simp: iter_final_header_def yield_response_def
      split: if_splits sum.splits option.splits prod.splits list.splits)

lemma get_iter_body_sentinel:
  assumes "sentinel_items (out st)"
  shows "flow_all (\<lambda>s. sentinel_items (out s)) (get_iter_body ch st n)"
proof (cases "is_over_memory_limit ch (total_bytes st + n)")
  case True
  then show ?thesis
    using assms by (simp add: get_iter_body_def Let_def yield_response_def yield_records_def)
next
  case False
  have "flow_all (\<lambda>s. sentinel_items (out s))
          (then_block (then_block (iter_initial_header (st\<lparr>total_bytes := total_bytes st + n\<rparr>))
                 (iter_records_parsing ch)) iter_final_header)"
    using assms
    by (intro flow_all_then_block iter_initial_header_sentinel iter_records_parsing_sentinel
        iter_final_header_sentinel) simp_all
  then show ?thesis using False by (simp add: get_iter_body_def Let_def)
qed

lemma get_iter_loop_sentinel:
  "sentinel_items (out st) \<Longrightarrow> sentinel_items (fst (fst (get_iter_loop ch st net)))"
proof (induction ch st net rule: get_iter_loop.induct)
  case (1 ch st net)
  show ?case
  proof (cases "feed_buffer (buffer st) 0 net")
    case (Pair res net')
    show ?thesis
    proof (cases res)
      case (Inl e)
      then show ?thesis using Pair "1.prems" by (subst get_iter_loop.simps) simp
    next
      case (Inr nb)
      obtain n b where nb: "nb = (n, b)" by (cases nb)
      show ?thesis
      proof (cases "n = 0")
        case True
        then show ?thesis using Pair Inr nb "1.prems"
          by (subst get_iter_loop.simps) (simp add: yield_records_def yield_response_def)
      next
        case False
        have o: "sentinel_items (out (st\<lparr>buffer := b\<rparr>))" using "1.prems" by simp
        note bd = get_iter_body_sentinel[OF o, of ch n]
        show ?thesis
        proof (cases "get_iter_body ch (st\<lparr>buffer := b\<rparr>) n")
          case (Next st')
          with bd have "sentinel_items (out st')" by simp
          from "1.IH"(1)[OF Pair[symmetric] Inr nb[symmetric] False Next this]
          show ?thesis using Pair Inr nb False Next by (subst get_iter_loop.simps) simp
        next
          case (Continue st')
          with bd have "sentinel_items (out st')" by simp
          from "1.IH"(2)[OF Pair[symmetric] Inr nb[symmetric] False Continue this]
          show ?thesis using Pair Inr nb False Continue by (subst get_iter_loop.simps) simp
        next
          case (Return c st')
          with bd show ?thesis using Pair Inr nb False
            by (subst get_iter_loop.simps) simp
        next
          case (Raise e st')
          with bd show ?thesis using Pair Inr nb False
            by (subst get_iter_loop.simps) simp
        qed
      qed
    qed
  qed
qed

text \<open>
  C10.  A response of \<^verbatim>\<open>get_acq\<close>, \<^verbatim>\<open>get\<close> or \<^verbatim>\<open>get_stream\<close>, and every response yielded by
  \<^verbatim>\<open>get_iter\<close>, has \<open>acq = -1\<close> when its status is not \<open>OK\<close>.
\<close>

theorem failed_request_acq_sentinel:
  "(if get_acq ch net kmin kmax = (Inr r1, net1) \<and> status r1 \<noteq> OK then acq r1 = - 1 else True)
   \<and> (if get ch net kmin kmax recv_buffer_size = (Inr r2, ch2, net2) \<and> status r2 \<noteq> OK
       then acq r2 = - 1 else True)
   \<and> (if get_stream ch net kmin kmax recv_buffer_size = (Inr r3, batches, ch3, net3)
          \<and> status r3 \<noteq> OK
       then acq r3 = - 1 else True)
   \<and> (if get_iter ch net kmin kmax recv_buffer_size = ((items, err), ch4, net4)
          \<and> Resp r4 \<in> set items \<and> status r4 \<noteq> OK
       then acq r4 = - 1 else True)"
proof -
  have a: "get_acq ch net kmin kmax = (Inr r1, net1) \<Longrightarrow> status r1 \<noteq> OK \<Longrightarrow> acq r1 = - 1"
    by (auto simp: get_acq_def response_defs split: if_splits sum.splits prod.splits
        option.splits dest: get_acq_loop_sentinel)
  have b: "get ch net kmin kmax recv_buffer_size = (Inr r2, ch2, net2) \<Longrightarrow> status r2 \<noteq> OK
         \<Longrightarrow> acq r2 = - 1"
    by (auto simp: get_def response_defs split: if_splits sum.splits prod.splits
        option.splits dest: get_loop_sentinel)
  have c: "get_stream ch net kmin kmax recv_buffer_size = (Inr r3, batches, ch3, net3)
         \<Longrightarrow> status r3 \<noteq> OK \<Longrightarrow> acq r3 = - 1"
    by (auto simp: get_stream_def response_defs split: if_splits sum.splits prod.splits
        option.splits dest: get_stream_loop_sentinel)
  have "sentinel_items (fst (fst (get_iter ch net kmin kmax recv_buffer_size)))"
    by (auto simp: get_iter_def initial_state_def
        split: if_splits sum.splits prod.splits option.splits
        intro!: get_iter_loop_sentinel)
  then have d: "get_iter ch net kmin kmax recv_buffer_size = ((items, err), ch4, net4)
         \<Longrightarrow> Resp r4 \<in> set items \<Longrightarrow> status r4 \<noteq> OK \<Longrightarrow> acq r4 = - 1"
    by (auto simp: sentinel_items_def list_all_iff split: item.splits if_splits)
  show ?thesis using a b c d by simp
qed

theorem failed_request_acq_sentinel_witness:
  "get_acq \<lparr>payload_type = BytesPayloadType, memory_limit = None, connected = True\<rparr>
     \<lparr>sends = [], recvs = [Data (le_encode 4 (- 1) @ le_encode 8 0)], recv_calls = []\<rparr>
     key_min key_max
   = (Inr (response_acq ERROR), \<lparr>sends = [], recvs = [], recv_calls = [(0, 12)]\<rparr>)
   \<and> status (response_acq ERROR) \<noteq> OK
   \<and> acq (response_acq ERROR) = - 1"
proof -
  let ?ch = "\<lparr>payload_type = BytesPayloadType, memory_limit = None, connected = True\<rparr>"
  let ?net = "\<lparr>sends = [], recvs = [Data (le_encode 4 (- 1) @ le_encode 8 0)],
               recv_calls = []\<rparr>"
  have e: "get_acq ?ch ?net key_min key_max
             = (Inr (response_acq ERROR), \<lparr>sends = [], recvs = [], recv_calls = [(0, 12)]\<rparr>)"
    by code_simp
  have s: "status (response_acq ERROR) \<noteq> OK"
    by (simp add: response_defs)
  from failed_request_acq_sentinel[of ?ch ?net key_min key_max "response_acq ERROR"
      "\<lparr>sends = [], recvs = [], recv_calls = [(0, 12)]\<rparr>"] e s
  show ?thesis by simp
qed

subsection \<open>get\_iter\<close>

lemma iter_flow_simps [simp]:
  "iter_flow (Next s) = records_only s" "iter_flow (Continue s) = records_only s"
  "iter_flow (Return c s) = terminated s" "iter_flow (Raise e s) = records_only s"
  by (simp_all add: iter_flow_def)


lemma records_only_update [simp]:
  "records_only (st\<lparr>buffer := b\<rparr>) = records_only st"
  "records_only (st\<lparr>stage := g\<rparr>) = records_only st"
  "records_only (st\<lparr>total_bytes := n\<rparr>) = records_only st"
  "records_only (st\<lparr>records := rs\<rparr>) = records_only st"
  by (simp_all add: records_only_def)

lemma records_only_yield_records [simp]:
  "records_only st \<Longrightarrow> records_only (yield_records st)"
  by (auto simp: records_only_def yield_records_def simp flip: map_append)

lemma terminated_yield_response [simp]:
  "records_only st \<Longrightarrow> terminated (yield_response r st)"
  by (auto simp: records_only_def terminated_def yield_response_def)















end
